theory Spec2Isabelle
  imports Main "HOL-Library.Multiset" "HOL-Library.List_Lexorder" "HOL-Library.Char_ord"
    "HOL-Library.Word"
begin

section \<open>Dates\<close>

text \<open>
  A JavaScript \<open>Date\<close> is an instant with millisecond precision. The board only ever
  looks at dates through the local-time functions of date-fns (\<open>addDays\<close>,
  \<open>isSameDay\<close>, \<open>startOfWeek\<close>) and \<open>getDay\<close>. The model fixes a time zone of
  constant UTC offset and represents a \<open>Date\<close> by its local wall-clock reading: the
  milliseconds elapsed since local midnight of 1970-01-01. Daylight-saving jumps and the
  invalid date are outside the model.
\<close>

type_synonym Date = int

definition msPerDay :: int where
  "msPerDay = 86400000"

text \<open>The calendar day of a date, counted from 1970-01-01, and its local midnight.\<close>

definition dayNumber :: "Date \<Rightarrow> int" where
  "dayNumber d = d div msPerDay"

definition startOfDay :: "Date \<Rightarrow> Date" where
  "startOfDay d = d - d mod msPerDay"

text \<open>
  \<open>addDays\<close> moves the calendar day by the given number of days. In the fixed-offset
  zone of the model the time of day stays the same; under daylight saving the library
  lands on another time of day when the target local time does not exist, so nothing
  below is stated about the time of day of a shifted date.
\<close>

definition addDays :: "Date \<Rightarrow> int \<Rightarrow> Date" where
  "addDays d amount = d + amount * msPerDay"

text \<open>\<open>isSameDay a b\<close> compares the two local midnights.\<close>

definition isSameDay :: "Date \<Rightarrow> Date \<Rightarrow> bool" where
  "isSameDay a b \<longleftrightarrow> startOfDay a = startOfDay b"

text \<open>\<open>getDay\<close>: 0 is Sunday; 1970-01-01 was a Thursday.\<close>

definition getDay :: "Date \<Rightarrow> int" where
  "getDay d = (dayNumber d + 4) mod 7"

text \<open>
  \<open>startOfWeek date {weekStartsOn}\<close> steps back to the first day of the week and
  clears the time of day.
\<close>

definition startOfWeek :: "Date \<Rightarrow> int \<Rightarrow> Date" where
  "startOfWeek d weekStartsOn =
     (let day = getDay d;
          diff = (if day < weekStartsOn then 7 else 0) + day - weekStartsOn
      in startOfDay (addDays d (- diff)))"

text \<open>
  Days since 1970-01-01 of a date of the proleptic Gregorian calendar, used to name
  concrete calendar days; \<open>mkDate y m d hh mm\<close> is that day at \<open>hh:mm\<close> local time.
\<close>

definition daysFromCivil :: "int \<Rightarrow> int \<Rightarrow> int \<Rightarrow> int" where
  "daysFromCivil y m d =
     (let y' = (if m \<le> 2 then y - 1 else y);
          era = y' div 400;
          yoe = y' - era * 400;
          doy = (153 * (if m > 2 then m - 3 else m + 9) + 2) div 5 + d - 1;
          doe = yoe * 365 + yoe div 4 - yoe div 100 + doy
      in era * 146097 + doe - 719468)"

definition mkDate :: "int \<Rightarrow> int \<Rightarrow> int \<Rightarrow> int \<Rightarrow> int \<Rightarrow> Date" where
  "mkDate y m d hh mm = daysFromCivil y m d * msPerDay + (hh * 60 + mm) * 60000"

section \<open>Strings\<close>

text \<open>
  The strings of the event board are lists of 8-bit characters. The text of a task is
  trimmed, and trimming looks at every white space character of Unicode, so that text is
  held as the string is stored: a list of UTF-16 code units. \<open>ofAscii\<close> gives the
  code units of an ASCII text.
\<close>

type_synonym utf16 = "16 word list"

definition ofAscii :: "string \<Rightarrow> utf16" where
  "ofAscii s = map of_char s"

text \<open>
  White space and line terminators, as \<open>trim\<close> reads them: tab, line feed, vertical
  tab, form feed, carriage return, space, no-break space, the Ogham space mark, the
  spaces U+2000 to U+200A, line and paragraph separator, narrow no-break space, medium
  mathematical space, ideographic space and the byte order mark. All lie in the basic
  plane, so each is one code unit.
\<close>

definition isWhiteSpace :: "16 word \<Rightarrow> bool" where
  "isWhiteSpace u \<longleftrightarrow>
     u \<in> set [0x0009, 0x000A, 0x000B, 0x000C, 0x000D, 0x0020, 0x00A0, 0x1680, 0x2028,
               0x2029, 0x202F, 0x205F, 0x3000, 0xFEFF]
     \<or> (0x2000 \<le> u \<and> u \<le> 0x200A)"

definition trim :: "utf16 \<Rightarrow> utf16" where
  "trim s = rev (dropWhile isWhiteSpace (rev (dropWhile isWhiteSpace s)))"


text \<open>\<open>s.split sep\<close> for a separator of one character; the empty string gives \<open>[""]\<close>.\<close>

fun split :: "string \<Rightarrow> char \<Rightarrow> string list" where
  "split [] sep = [[]]"
| "split (c # cs) sep =
     (if c = sep then [] # split cs sep
      else (case split cs sep of
              [] \<Rightarrow> [[c]]
            | part # parts \<Rightarrow> (c # part) # parts))"

text \<open>
  Numbers. Only the natural numbers arise from well-formed times. \<open>Number s\<close> is the
  decimal value of a string of at most 15 digits, which a double holds exactly (0 for
  the empty string); every other string is outside the modelled fragment and gives
  \<open>None\<close>.
\<close>

definition isDigit :: "char \<Rightarrow> bool" where
  "isDigit c \<longleftrightarrow> 48 \<le> (of_char c :: nat) \<and> (of_char c :: nat) \<le> 57"

definition digitValue :: "char \<Rightarrow> nat" where
  "digitValue c = of_char c - 48"

definition digitChar :: "nat \<Rightarrow> char" where
  "digitChar n = char_of (48 + n)"

definition Number :: "string \<Rightarrow> nat option" where
  "Number s =
     (if list_all isDigit s \<and> length s \<le> 15
      then Some (foldl (\<lambda>n c. 10 * n + digitValue c) 0 s)
      else None)"

fun toString :: "nat \<Rightarrow> string" where
  "toString n =
     (if n < 10 then [digitChar n] else toString (n div 10) @ [digitChar (n mod 10)])"

definition padStart :: "string \<Rightarrow> nat \<Rightarrow> char \<Rightarrow> string" where
  "padStart s targetLength c = replicate (targetLength - length s) c @ s"

section \<open>Arrays\<close>

text \<open>
  \<open>xs.slice(start, end)\<close>: a negative index counts from the end, and both indices are
  clamped to the array.
\<close>

definition slice :: "'a list \<Rightarrow> int \<Rightarrow> int \<Rightarrow> 'a list" where
  "slice xs relativeStart relativeEnd =
     (let len = int (length xs);
          k = (if relativeStart < 0 then max (len + relativeStart) 0
               else min relativeStart len);
          final = (if relativeEnd < 0 then max (len + relativeEnd) 0
                   else min relativeEnd len)
      in take (nat (final - k)) (drop (nat k) xs))"



section \<open>The document store\<close>

text \<open>
  Documents are lists of named fields. A \<open>Date\<close> is stored as a timestamp of the same
  instant; \<open>ServerTimestamp\<close> is the placeholder the server fills in. The type
  \<open>'s\<close> is the representation of the string values: characters for the board, code
  units for the task list. The writes a handler issues are returned as a list of calls,
  in order.
\<close>

datatype 's FieldValue =
    StringValue 's
  | BooleanValue bool
  | TimestampValue Date
  | ServerTimestamp

type_synonym 's DocumentData = "(string \<times> 's FieldValue) list"

datatype 's StoreCall =
    AddDoc string "'s DocumentData"
  | UpdateDoc string string "'s DocumentData"
  | DeleteDoc string string

record Doc =
  id' :: string

section \<open>The event board\<close>

record Event = Doc +
  title :: string
  time :: string
  start :: Date
  end' :: Date

text \<open>
  \<open>formatTime12Hour\<close>. Reading the minutes of a time without a colon raises a
  \<open>TypeError\<close>; a part that is not a string of digits is outside the model.
\<close>

datatype failure = TypeError | Unmodelled

definition formatTime12Hour :: "string \<Rightarrow> failure + string" where
  "formatTime12Hour time24 =
     (if time24 = [] then Inr []
      else (case map Number (split time24 CHR '':'') of
              Some hours # Some minutes # rest \<Rightarrow>
                (let period = (if hours \<ge> 12 then ''PM'' else ''AM'');
                     hours12 = (if hours mod 12 = 0 then 12 else hours mod 12)
                 in Inr (toString hours12 @ '':''
                         @ padStart (toString minutes) 2 CHR ''0'' @ '' '' @ period))
            | [hours] \<Rightarrow> Inl TypeError
            | other \<Rightarrow> Inl Unmodelled))"


text \<open>The 15 days from seven days before today to seven days after it.\<close>

definition boardActiveRange :: "Date \<Rightarrow> Date list" where
  "boardActiveRange today = map (\<lambda>i. addDays today (int i - 7)) [0..<15]"

text \<open>The days of the range that carry an event, and today.\<close>

definition activeDays :: "Date \<Rightarrow> Event list \<Rightarrow> Date list" where
  "activeDays today evs =
     filter (\<lambda>day. list_ex (\<lambda>e. isSameDay (start e) day) evs \<or> isSameDay day today)
       (boardActiveRange today)"

text \<open>The days shown as columns, at most seven.\<close>

definition visibleBoardDays :: "Date list \<Rightarrow> int \<Rightarrow> Date list" where
  "visibleBoardDays days windowStart = slice days windowStart (windowStart + 7)"

text \<open>The week shown in the dialog's day picker.\<close>

definition modalStartDate :: "Date \<Rightarrow> int \<Rightarrow> Date" where
  "modalStartDate today weekOffset = addDays (startOfWeek today 0) (weekOffset * 7)"

definition modalWeekDays :: "Date \<Rightarrow> int \<Rightarrow> Date list" where
  "modalWeekDays today weekOffset =
     map (\<lambda>i. addDays (modalStartDate today weekOffset) (int i)) [0..<7]"



subsection \<open>Component state and handlers\<close>

record KanbanBoard =
  events :: "Event list"
  isModalOpen :: bool
  selectedDate :: "Date option"
  newEventTitle :: string
  newEventTime :: string
  modalWeekOffset :: int
  boardWindowStart :: int

definition initialBoard :: KanbanBoard where
  "initialBoard =
     \<lparr>events = [], isModalOpen = False, selectedDate = None, newEventTitle = [],
      newEventTime = [], modalWeekOffset = 0, boardWindowStart = 0\<rparr>"

definition setEvents :: "Event list \<Rightarrow> KanbanBoard \<Rightarrow> KanbanBoard" where
  "setEvents eventsArr s = s\<lparr>events := eventsArr\<rparr>"

definition setSelectedDate :: "Date option \<Rightarrow> KanbanBoard \<Rightarrow> KanbanBoard" where
  "setSelectedDate d s = s\<lparr>selectedDate := d\<rparr>"

definition setNewEventTitle :: "string \<Rightarrow> KanbanBoard \<Rightarrow> KanbanBoard" where
  "setNewEventTitle v s = s\<lparr>newEventTitle := v\<rparr>"

definition setNewEventTime :: "string \<Rightarrow> KanbanBoard \<Rightarrow> KanbanBoard" where
  "setNewEventTime v s = s\<lparr>newEventTime := v\<rparr>"

definition setIsModalOpen :: "bool \<Rightarrow> KanbanBoard \<Rightarrow> KanbanBoard" where
  "setIsModalOpen b s = s\<lparr>isModalOpen := b\<rparr>"

definition setModalWeekOffset :: "(int \<Rightarrow> int) \<Rightarrow> KanbanBoard \<Rightarrow> KanbanBoard" where
  "setModalWeekOffset f s = s\<lparr>modalWeekOffset := f (modalWeekOffset s)\<rparr>"

definition setBoardWindowStart :: "(int \<Rightarrow> int) \<Rightarrow> KanbanBoard \<Rightarrow> KanbanBoard" where
  "setBoardWindowStart f s = s\<lparr>boardWindowStart := f (boardWindowStart s)\<rparr>"

definition handleColumnClick :: "Date \<Rightarrow> KanbanBoard \<Rightarrow> KanbanBoard" where
  "handleColumnClick date s =
     setIsModalOpen True (setNewEventTime ''09:00'' (setSelectedDate (Some date) s))"

definition handleAddEventClick :: "Date \<Rightarrow> KanbanBoard \<Rightarrow> KanbanBoard" where
  "handleAddEventClick today s =
     setIsModalOpen True (setNewEventTime ''09:00''
       (setModalWeekOffset (\<lambda>prev. 0) (setSelectedDate (Some today) s)))"

definition closeModal :: "KanbanBoard \<Rightarrow> KanbanBoard" where
  "closeModal s =
     setNewEventTime [] (setNewEventTitle []
       (setModalWeekOffset (\<lambda>prev. 0) (setSelectedDate None (setIsModalOpen False s))))"

text \<open>
  Submitting the dialog. The write is taken to succeed; the dialog closes after it.
\<close>

definition handleAddEvent :: "KanbanBoard \<Rightarrow> KanbanBoard \<times> string StoreCall list" where
  "handleAddEvent s =
     (case selectedDate s of
        None \<Rightarrow> (s, [])
      | Some date \<Rightarrow>
          if newEventTitle s \<noteq> [] then
            (let eventStart = date; eventEnd = date
             in (closeModal s,
                 [AddDoc ''events''
                    [(''title'', StringValue (newEventTitle s)),
                     (''time'', StringValue (newEventTime s)),
                     (''start'', TimestampValue eventStart),
                     (''end'', TimestampValue eventEnd),
                     (''createdAt'', ServerTimestamp)]]))
          else (s, []))"

definition removeEvent :: "string \<Rightarrow> string StoreCall list" where
  "removeEvent ident = [DeleteDoc ''events'' ident]"

text \<open>
  The board's arrows. Both sit under the guard that more than seven days are active;
  the left one is rendered when the window does not start at 0, the right one when days
  remain beyond the window. A click moves the window by one day. An arrow that is not
  rendered cannot be clicked: the state stays as it is.
\<close>

datatype Arrow = ChevronLeft | ChevronRight

definition boardArrows :: "Date \<Rightarrow> KanbanBoard \<Rightarrow> Arrow list" where
  "boardArrows today s =
     (let days = activeDays today (events s)
      in if length days > 7 then
           (if boardWindowStart s > 0 then [ChevronLeft] else [])
           @ (if boardWindowStart s + 7 < int (length days) then [ChevronRight] else [])
         else [])"

fun onClick :: "Arrow \<Rightarrow> KanbanBoard \<Rightarrow> KanbanBoard" where
  "onClick ChevronLeft s = setBoardWindowStart (\<lambda>prev. prev - 1) s"
| "onClick ChevronRight s = setBoardWindowStart (\<lambda>prev. prev + 1) s"

definition clickArrow :: "Arrow \<Rightarrow> Date \<Rightarrow> KanbanBoard \<Rightarrow> KanbanBoard" where
  "clickArrow a today s = (if a \<in> set (boardArrows today s) then onClick a s else s)"

section \<open>The task list\<close>

record Todo = Doc +
  text' :: utf16
  completed :: bool

record TodoList =
  todos :: "Todo list"
  inputValue :: utf16

definition setInputValue :: "utf16 \<Rightarrow> TodoList \<Rightarrow> TodoList" where
  "setInputValue v s = s\<lparr>inputValue := v\<rparr>"

text \<open>\<open>addTodo now\<close>: \<open>now\<close> is the instant of the submission.\<close>

definition addTodo :: "Date \<Rightarrow> TodoList \<Rightarrow> TodoList \<times> utf16 StoreCall list" where
  "addTodo now s =
     (if trim (inputValue s) = [] then (s, [])
      else (setInputValue [] s,
            [AddDoc ''todos''
               [(''text'', StringValue (inputValue s)),
                (''completed'', BooleanValue False),
                (''createdAt'', TimestampValue now)]]))"

definition toggleTodo :: "string \<Rightarrow> bool \<Rightarrow> utf16 StoreCall list" where
  "toggleTodo ident isCompleted =
     [UpdateDoc ''todos'' ident [(''completed'', BooleanValue (\<not> isCompleted))]]"

definition removeTodo :: "string \<Rightarrow> utf16 StoreCall list" where
  "removeTodo ident = [DeleteDoc ''todos'' ident]"

section \<open>Notions used in the statements\<close>

text \<open>
  A well-formed time of day, as a time input produces it: two digits, a colon, two
  digits, the hour below 24 and the minute below 60.
\<close>

definition isTime24 :: "string \<Rightarrow> bool" where
  "isTime24 t \<longleftrightarrow>
     length t = 5
     \<and> isDigit (t ! 0) \<and> isDigit (t ! 1) \<and> t ! 2 = CHR '':''
     \<and> isDigit (t ! 3) \<and> isDigit (t ! 4)
     \<and> 10 * digitValue (t ! 0) + digitValue (t ! 1) < 24
     \<and> 10 * digitValue (t ! 3) + digitValue (t ! 4) < 60"


text \<open>The time of day of a date: the milliseconds since its local midnight.\<close>

definition timeOfDay :: "Date \<Rightarrow> int" where
  "timeOfDay d = d - startOfDay d"

text \<open>A named field of the document a store call carries.\<close>

fun docField :: "string \<Rightarrow> 's StoreCall \<Rightarrow> 's FieldValue option" where
  "docField name (AddDoc coll data) = map_of data name"
| "docField name (UpdateDoc coll ident data) = map_of data name"
| "docField name (DeleteDoc coll ident) = None"

section \<open>Concrete scenarios\<close>



definition c2_today :: Date where
  "c2_today = mkDate 2024 6 12 0 0"

definition c2_events :: "Event list" where
  "c2_events =
     [\<lparr>id' = ''a'', title = ''Dentist'', time = ''09:00'',
       start = mkDate 2024 6 5 0 0, end' = mkDate 2024 6 5 0 0\<rparr>,
      \<lparr>id' = ''b'', title = ''Concert'', time = ''20:00'',
       start = mkDate 2024 6 20 0 0, end' = mkDate 2024 6 20 0 0\<rparr>]"




definition week_today :: Date where
  "week_today = mkDate 2024 6 12 10 30"

definition eventOn :: "Date \<Rightarrow> Event" where
  "eventOn d = \<lparr>id' = ''e'', title = ''Gym'', time = ''09:00'', start = d, end' = d\<rparr>"

definition week_events :: "Event list" where
  "week_events = map (\<lambda>i. eventOn (mkDate 2024 6 (int i) 0 0)) [5..<12]"

definition board_full :: KanbanBoard where
  "board_full = setEvents week_events initialBoard"

definition board_moved :: KanbanBoard where
  "board_moved = clickArrow ChevronRight week_today board_full"

definition board_shrunk :: KanbanBoard where
  "board_shrunk = setEvents [] board_moved"

definition emptyList :: TodoList where
  "emptyList = \<lparr>todos = [], inputValue = []\<rparr>"

section \<open>Facts about dates\<close>

lemmas date_defs = isSameDay_def startOfDay_def addDays_def mkDate_def daysFromCivil_def
  msPerDay_def dayNumber_def

lemma dayNumber_addDays: "dayNumber (addDays d n) = dayNumber d + n"
  by (simp add: dayNumber_def addDays_def msPerDay_def)

lemma startOfDay_dayNumber: "startOfDay d = dayNumber d * msPerDay"
  by (simp add: startOfDay_def dayNumber_def minus_mod_eq_div_mult)

lemma isSameDay_iff: "isSameDay a b \<longleftrightarrow> dayNumber a = dayNumber b"
  by (simp add: isSameDay_def startOfDay_dayNumber msPerDay_def)

lemma isSameDay_refl: "isSameDay a a"
  by (simp add: isSameDay_def)






lemma list_ex_isSameDay:
  "list_ex (\<lambda>e. isSameDay (start e) day) evs
     \<longleftrightarrow> dayNumber day \<in> dayNumber ` start ` set evs"
  by (force simp: list_ex_iff isSameDay_iff image_iff)

section \<open>Facts about strings and sorting\<close>





lemma list5: "length t = 5 \<Longrightarrow> \<exists>a b c d e. t = [a, b, c, d, e]"
  by (auto simp: eval_nat_numeral length_Suc_conv)

lemma isTime24_shape:
  assumes "isTime24 t"
  obtains a b c d where "t = [a, b, CHR '':'', c, d]"
    and "isDigit a" and "isDigit b" and "isDigit c" and "isDigit d"
    and "10 * digitValue a + digitValue b < 24"
    and "10 * digitValue c + digitValue d < 60"
proof -
  from assms have "length t = 5" by (simp add: isTime24_def)
  then obtain a b s c d where t: "t = [a, b, s, c, d]"
    using list5 by blast
  with assms show ?thesis
    by (intro that [of a b c d]) (simp_all add: isTime24_def)
qed


lemma trim_empty_iff: "trim v = [] \<longleftrightarrow> (\<forall>c \<in> set v. isWhiteSpace c)"
proof
  assume "trim v = []"
  then have all: "\<forall>x \<in> set (dropWhile isWhiteSpace v). isWhiteSpace x"
    by (simp add: trim_def dropWhile_eq_Nil_conv)
  have "dropWhile isWhiteSpace v = []"
  proof (rule ccontr)
    assume ne: "dropWhile isWhiteSpace v \<noteq> []"
    then have "\<not> isWhiteSpace (hd (dropWhile isWhiteSpace v))"
      by (rule hd_dropWhile)
    moreover have "hd (dropWhile isWhiteSpace v) \<in> set (dropWhile isWhiteSpace v)"
      using ne by (rule hd_in_set)
    ultimately show False using all by blast
  qed
  then show "\<forall>c \<in> set v. isWhiteSpace c"
    by (simp add: dropWhile_eq_Nil_conv)
next
  assume "\<forall>c \<in> set v. isWhiteSpace c"
  then show "trim v = []"
    by (auto simp: trim_def dropWhile_eq_Nil_conv dest: set_dropWhileD)
qed

section \<open>Facts about the board\<close>

lemmas board_defs = initialBoard_def setEvents_def setBoardWindowStart_def clickArrow_def
  boardArrows_def activeDays_def boardActiveRange_def

lemma board_full_days: "length (activeDays week_today (events board_full)) = 8"
  by (simp add: board_full_def week_events_def week_today_def eventOn_def board_defs
      date_defs upt_rec)

lemma board_moved_eq: "board_moved = board_full\<lparr>boardWindowStart := 1\<rparr>"
  using board_full_days
  by (simp add: board_moved_def clickArrow_def boardArrows_def setBoardWindowStart_def
      board_full_def setEvents_def initialBoard_def)

lemma board_shrunk_eq: "board_shrunk = initialBoard\<lparr>boardWindowStart := 1\<rparr>"
  by (simp add: board_shrunk_def board_moved_eq board_full_def setEvents_def initialBoard_def)

lemma board_shrunk_days: "activeDays week_today (events board_shrunk) = [week_today]"
  by (simp add: board_shrunk_eq week_today_def board_defs date_defs upt_rec)

lemma take_min_length: "take n xs = take (min n (length xs)) xs"
  by (simp add: min_def)

lemma slice_window:
  assumes "0 \<le> i"
  shows "slice xs i (i + 7) = take 7 (drop (nat i) xs)"
proof (cases "i \<le> int (length xs)")
  case True
  with assms have "slice xs i (i + 7)
      = take (nat (min (i + 7) (int (length xs)) - i)) (drop (nat i) xs)"
    by (simp add: slice_def Let_def min_def)
  also have "\<dots> = take (min (nat (min (i + 7) (int (length xs)) - i)) (length (drop (nat i) xs)))
                    (drop (nat i) xs)"
    by (rule take_min_length)
  also have "min (nat (min (i + 7) (int (length xs)) - i)) (length (drop (nat i) xs))
               = min 7 (length (drop (nat i) xs))"
    using assms True by (simp add: min_def) linarith
  also have "take (min 7 (length (drop (nat i) xs))) (drop (nat i) xs)
               = take 7 (drop (nat i) xs)"
    by (rule take_min_length [symmetric])
  finally show ?thesis .
next
  case False
  with assms show ?thesis
    by (simp add: slice_def Let_def min_def)
qed

lemma slice_length_le: "length (slice xs i (i + 7)) \<le> 7"
  by (simp add: slice_def Let_def) linarith

section \<open>Facts about the dialog\<close>

lemma timeOfDay_startOfDay: "timeOfDay (startOfDay d) = 0"
  by (simp add: timeOfDay_def startOfDay_def msPerDay_def)

lemmas handler_defs = handleColumnClick_def handleAddEventClick_def closeModal_def
  setSelectedDate_def setNewEventTitle_def setNewEventTime_def setIsModalOpen_def
  setModalWeekOffset_def

section \<open>Facts about the week\<close>

lemma dayNumber_startOfDay: "dayNumber (startOfDay d) = dayNumber d"
  by (simp add: startOfDay_dayNumber dayNumber_def msPerDay_def)

lemma getDay_range: "0 \<le> getDay d \<and> getDay d < 7"
  by (simp add: getDay_def)

lemma dayNumber_startOfWeek: "dayNumber (startOfWeek d 0) = dayNumber d - getDay d"
  using getDay_range [of d]
  by (simp add: startOfWeek_def Let_def dayNumber_startOfDay dayNumber_addDays)

lemma getDay_startOfWeek: "getDay (startOfWeek d 0) = 0"
proof -
  have "getDay (startOfWeek d 0) = (dayNumber d + 4 - (dayNumber d + 4) mod 7) mod 7"
    by (simp add: getDay_def [of "startOfWeek d 0"] dayNumber_startOfWeek getDay_def [of d]
        algebra_simps)
  also have "\<dots> = 0"
    by (simp add: minus_mod_eq_div_mult)
  finally show ?thesis .
qed

lemma modalWeekDays_explicit:
  "modalWeekDays today weekOffset =
     [addDays (modalStartDate today weekOffset) 0,
      addDays (modalStartDate today weekOffset) 1,
      addDays (modalStartDate today weekOffset) 2,
      addDays (modalStartDate today weekOffset) 3,
      addDays (modalStartDate today weekOffset) 4,
      addDays (modalStartDate today weekOffset) 5,
      addDays (modalStartDate today weekOffset) 6]"
  by (simp add: modalWeekDays_def upt_rec)

lemma today_in_modal_week: "\<exists>d \<in> set (modalWeekDays today 0). isSameDay d today"
proof -
  let ?i = "nat (getDay today)"
  have r: "0 \<le> getDay today" "getDay today < 7"
    using getDay_range [of today] by simp_all
  then have "?i \<in> set [0..<7]" by simp
  then have "(\<lambda>i. addDays (modalStartDate today 0) (int i)) ?i
               \<in> (\<lambda>i. addDays (modalStartDate today 0) (int i)) ` set [0..<7]"
    by (rule imageI)
  then have "addDays (modalStartDate today 0) (int ?i) \<in> set (modalWeekDays today 0)"
    by (simp only: modalWeekDays_def set_map)
  moreover have "isSameDay (addDays (modalStartDate today 0) (int ?i)) today"
    using r by (simp add: isSameDay_iff dayNumber_addDays modalStartDate_def
        dayNumber_startOfWeek)
  ultimately show ?thesis by blast
qed

section \<open>Facts about digits and times\<close>

lemma digitChar_values:
  "digitChar 0 = CHR ''0''" "digitChar 1 = CHR ''1''" "digitChar 2 = CHR ''2''"
  "digitChar 3 = CHR ''3''" "digitChar 4 = CHR ''4''" "digitChar 5 = CHR ''5''"
  "digitChar 6 = CHR ''6''" "digitChar 7 = CHR ''7''" "digitChar 8 = CHR ''8''"
  "digitChar 9 = CHR ''9''" "digitChar (Suc 0) = CHR ''1''"
  by (simp_all add: digitChar_def char_of_def bit_iff_odd)

lemma digitChar_digitValue: "isDigit c \<Longrightarrow> digitChar (digitValue c) = c"
  by (simp add: isDigit_def digitChar_def digitValue_def)

lemma digitValue_less: "isDigit c \<Longrightarrow> digitValue c < 10"
  by (auto simp: isDigit_def digitValue_def)

lemma digit_zero: "isDigit c \<Longrightarrow> digitValue c = 0 \<Longrightarrow> c = CHR ''0''"
proof -
  assume "isDigit c" "digitValue c = 0"
  then have "digitChar 0 = c"
    using digitChar_digitValue by metis
  then show ?thesis
    by (simp add: digitChar_values)
qed

lemma toString_digit: "n < 10 \<Longrightarrow> toString n = [digitChar n]"
  by simp

lemma toString_two:
  assumes "0 < x" "x < 10" "y < 10"
  shows "toString (10 * x + y) = [digitChar x, digitChar y]"
proof -
  from assms have "\<not> 10 * x + y < 10" "(10 * x + y) div 10 = x" "(10 * x + y) mod 10 = y"
    by simp_all
  then have "toString (10 * x + y) = toString x @ [digitChar y]"
    by (subst toString.simps) simp
  with assms show ?thesis
    by (simp add: toString_digit)
qed

lemma padStart_two_digits:
  assumes "isDigit c" "isDigit d"
  shows "padStart (toString (10 * digitValue c + digitValue d)) 2 CHR ''0'' = [c, d]"
proof (cases "digitValue c = 0")
  case True
  with assms have "c = CHR ''0''" by (simp add: digit_zero)
  moreover have "toString (digitValue d) = [d]"
    using assms by (simp add: toString_digit digitValue_less digitChar_digitValue)
  ultimately show ?thesis
    using True by (simp add: padStart_def del: toString.simps)
next
  case False
  with assms have "toString (10 * digitValue c + digitValue d)
                     = [digitChar (digitValue c), digitChar (digitValue d)]"
    by (intro toString_two) (simp_all add: digitValue_less)
  with assms show ?thesis
    by (simp add: padStart_def digitChar_digitValue del: toString.simps)
qed

lemma Number_two_digits:
  "isDigit a \<Longrightarrow> isDigit b \<Longrightarrow> Number [a, b] = Some (10 * digitValue a + digitValue b)"
  by (simp add: Number_def)

lemma digit_not_colon: "isDigit c \<Longrightarrow> c \<noteq> CHR '':''"
  by (auto simp: isDigit_def)

lemma split_time:
  assumes "isDigit a" "isDigit b" "isDigit c" "isDigit d"
  shows "split [a, b, CHR '':'', c, d] CHR '':'' = [[a, b], [c, d]]"
  using assms by (simp add: digit_not_colon)

lemma hours12_cases:
  assumes "(h::nat) < 24"
  shows "(if h mod 12 = 0 then 12 else h mod 12)
           = (if h = 0 then 12 else if h \<le> 11 then h else if h = 12 then 12 else h - 12)"
proof -
  consider "h = 0" | "0 < h \<and> h \<le> 11" | "h = 12" | "12 < h \<and> h < 24"
    using assms by linarith
  then show ?thesis
  proof cases
    case 4
    then have "h mod 12 = h - 12"
      by presburger
    with 4 show ?thesis by simp
  qed auto
qed

section \<open>The active days\<close>



text \<open>
  C2, as stated, fails. With today on 2024-06-12 and events on 2024-06-05 and 2024-06-20
  only, the active days are 06-05 and 06-12: the range ends at today + 7 = 06-19, so
  06-20 is not a candidate.
\<close>

theorem activeDays_june_scenario_counterexample:
  "dayNumber c2_today = daysFromCivil 2024 6 12
   \<and> map dayNumber (map start c2_events) = [daysFromCivil 2024 6 5, daysFromCivil 2024 6 20]
   \<and> map dayNumber (activeDays c2_today c2_events)
       = [daysFromCivil 2024 6 5, daysFromCivil 2024 6 12]
   \<and> map dayNumber (activeDays c2_today c2_events)
       \<noteq> [daysFromCivil 2024 6 5, daysFromCivil 2024 6 12, daysFromCivil 2024 6 20]"
  by (simp add: activeDays_def boardActiveRange_def upt_rec c2_events_def c2_today_def date_defs)

text \<open>
  C2, amended. Whenever today falls on 2024-06-12 and the events' start days are exactly
  2024-06-05 and 2024-06-20, the active days are the two dates \<open>today - 7 days\<close> and
  \<open>today\<close>, that is 2024-06-05 and 2024-06-12.
\<close>

theorem activeDays_june_scenario:
  assumes today: "dayNumber today = daysFromCivil 2024 6 12"
    and evs: "dayNumber ` start ` set evs = {daysFromCivil 2024 6 5, daysFromCivil 2024 6 20}"
  shows "activeDays today evs = [addDays today (- 7), today]
         \<and> map dayNumber (activeDays today evs)
             = [daysFromCivil 2024 6 5, daysFromCivil 2024 6 12]"
proof -
  have keep: "(list_ex (\<lambda>e. isSameDay (start e) (addDays today k)) evs
                \<or> isSameDay (addDays today k) today) \<longleftrightarrow> (k = - 7 \<or> k = 8 \<or> k = 0)" for k
    unfolding list_ex_isSameDay evs
    by (auto simp: isSameDay_iff dayNumber_addDays today daysFromCivil_def)
  have "activeDays today evs
          = map (\<lambda>i. addDays today (int i - 7))
              (filter (\<lambda>i. int i - 7 = - 7 \<or> int i - 7 = 8 \<or> int i - 7 = 0) [0..<15])"
    by (simp add: activeDays_def boardActiveRange_def filter_map comp_def keep)
  also have "filter (\<lambda>i. int i - 7 = - 7 \<or> int i - 7 = 8 \<or> int i - 7 = 0) [0..<15] = [0, 7]"
    by (simp add: upt_rec)
  finally have res: "activeDays today evs = [addDays today (- 7), today]"
    by (simp add: addDays_def)
  have "map dayNumber [addDays today (- 7), today]
          = [daysFromCivil 2024 6 5, daysFromCivil 2024 6 12]"
    by (simp add: dayNumber_addDays today daysFromCivil_def)
  with res show ?thesis by simp
qed

theorem activeDays_june_scenario_witness:
  "dayNumber c2_today = daysFromCivil 2024 6 12
   \<and> dayNumber ` start ` set c2_events = {daysFromCivil 2024 6 5, daysFromCivil 2024 6 20}
   \<and> activeDays c2_today c2_events = [addDays c2_today (- 7), c2_today]"
proof -
  have t: "dayNumber c2_today = daysFromCivil 2024 6 12"
    by (simp add: c2_today_def date_defs)
  have e: "dayNumber ` start ` set c2_events
             = {daysFromCivil 2024 6 5, daysFromCivil 2024 6 20}"
    by (simp add: c2_events_def date_defs)
  from activeDays_june_scenario [OF t e] t e show ?thesis by simp
qed

section \<open>The events of a day\<close>



section \<open>Moving the window\<close>

text \<open>
  C4, as stated, fails. After seven events in the week before today, one step to the
  right and a snapshot without events, the window starts at 1, which is above 0, yet the
  left arrow is not rendered, since no more than seven days are active; the click has no
  effect.
\<close>

theorem board_navigation_counterexample:
  "0 < boardWindowStart board_shrunk
   \<and> ChevronLeft \<notin> set (boardArrows week_today board_shrunk)
   \<and> clickArrow ChevronLeft week_today board_shrunk = board_shrunk"
proof -
  have w: "boardWindowStart board_shrunk = 1"
    by (simp add: board_shrunk_eq)
  have a: "boardArrows week_today board_shrunk = []"
    using board_shrunk_days by (simp add: boardArrows_def)
  show ?thesis
    by (simp add: w a clickArrow_def)
qed

text \<open>
  C4, amended. The left arrow is enabled exactly when more than seven days are active
  and the window start is above 0; the right arrow exactly when more than seven days are
  active and the window start plus 7 is below the number of active days, the first
  condition being implied by the second for a window start that is not negative. A click
  on an enabled left arrow lowers the window start by exactly 1, one on an enabled right
  arrow raises it by exactly 1, nothing else changes, and a click on an arrow that is
  not enabled leaves the state as it is.
\<close>

theorem board_navigation:
  "(ChevronLeft \<in> set (boardArrows today s)
      \<longleftrightarrow> 7 < length (activeDays today (events s)) \<and> 0 < boardWindowStart s)
   \<and> (ChevronRight \<in> set (boardArrows today s)
      \<longleftrightarrow> 7 < length (activeDays today (events s))
          \<and> boardWindowStart s + 7 < int (length (activeDays today (events s))))
   \<and> (0 \<le> boardWindowStart s \<longrightarrow>
        (ChevronRight \<in> set (boardArrows today s)
           \<longleftrightarrow> boardWindowStart s + 7 < int (length (activeDays today (events s)))))
   \<and> clickArrow ChevronLeft today s
       = (if ChevronLeft \<in> set (boardArrows today s)
          then s\<lparr>boardWindowStart := boardWindowStart s - 1\<rparr> else s)
   \<and> clickArrow ChevronRight today s
       = (if ChevronRight \<in> set (boardArrows today s)
          then s\<lparr>boardWindowStart := boardWindowStart s + 1\<rparr> else s)"
proof -
  let ?n = "length (activeDays today (events s))"
  have left: "ChevronLeft \<in> set (boardArrows today s) \<longleftrightarrow> 7 < ?n \<and> 0 < boardWindowStart s"
    by (simp add: boardArrows_def Let_def)
  have right: "ChevronRight \<in> set (boardArrows today s)
                 \<longleftrightarrow> 7 < ?n \<and> boardWindowStart s + 7 < int ?n"
    by (simp add: boardArrows_def Let_def)
  have right': "ChevronRight \<in> set (boardArrows today s) \<longleftrightarrow> boardWindowStart s + 7 < int ?n"
    if "0 \<le> boardWindowStart s"
    using that unfolding right by linarith
  have prev: "clickArrow ChevronLeft today s
       = (if ChevronLeft \<in> set (boardArrows today s)
          then s\<lparr>boardWindowStart := boardWindowStart s - 1\<rparr> else s)"
    by (simp add: clickArrow_def setBoardWindowStart_def)
  have nxt: "clickArrow ChevronRight today s
       = (if ChevronRight \<in> set (boardArrows today s)
          then s\<lparr>boardWindowStart := boardWindowStart s + 1\<rparr> else s)"
    by (simp add: clickArrow_def setBoardWindowStart_def)
  from left right right' prev nxt show ?thesis by blast
qed

theorem board_navigation_witness:
  "0 \<le> boardWindowStart board_full
   \<and> boardWindowStart board_full + 7 < int (length (activeDays week_today (events board_full)))
   \<and> ChevronRight \<in> set (boardArrows week_today board_full)
   \<and> clickArrow ChevronRight week_today board_full = board_full\<lparr>boardWindowStart := 1\<rparr>
   \<and> clickArrow ChevronLeft week_today board_full = board_full
   \<and> clickArrow ChevronLeft week_today board_moved = board_full
   \<and> clickArrow ChevronRight week_today board_moved = board_moved"
proof -
  have w: "boardWindowStart board_full = 0"
    by (simp add: board_full_def setEvents_def initialBoard_def)
  have m: "boardWindowStart board_moved = 1" "events board_moved = events board_full"
    "board_moved\<lparr>boardWindowStart := 0\<rparr> = board_full"
    by (simp_all add: board_moved_eq board_full_def setEvents_def initialBoard_def)
  from board_navigation [of week_today board_full] board_navigation [of week_today board_moved]
    board_full_days w m
  show ?thesis by simp
qed

section \<open>Creating an event\<close>

text \<open>
  C5, as stated, fails. With today at 10:30 on 2024-06-12 and no events, the board shows
  the one column of today; a click on it seeds the selected date with today as it is, and
  the event then created starts and ends at 10:30 of that day, not at local midnight.
\<close>

theorem handleAddEvent_midnight_counterexample:
  "visibleBoardDays (activeDays week_today (events initialBoard))
       (boardWindowStart initialBoard) = [week_today]
   \<and> snd (handleAddEvent (setNewEventTitle ''Gym'' (handleColumnClick week_today initialBoard)))
       = [AddDoc ''events''
            [(''title'', StringValue ''Gym''),
             (''time'', StringValue ''09:00''),
             (''start'', TimestampValue week_today),
             (''end'', TimestampValue week_today),
             (''createdAt'', ServerTimestamp)]]
   \<and> timeOfDay week_today = (10 * 60 + 30) * 60000
   \<and> week_today \<noteq> startOfDay week_today"
proof -
  have a: "visibleBoardDays (activeDays week_today (events initialBoard))
       (boardWindowStart initialBoard) = [week_today]"
    by (simp add: initialBoard_def visibleBoardDays_def slice_def activeDays_def
        boardActiveRange_def upt_rec week_today_def date_defs)
  have b: "snd (handleAddEvent (setNewEventTitle ''Gym''
                  (handleColumnClick week_today initialBoard)))
       = [AddDoc ''events''
            [(''title'', StringValue ''Gym''),
             (''time'', StringValue ''09:00''),
             (''start'', TimestampValue week_today),
             (''end'', TimestampValue week_today),
             (''createdAt'', ServerTimestamp)]]"
    by (simp add: handleAddEvent_def handler_defs initialBoard_def)
  have c: "timeOfDay week_today = (10 * 60 + 30) * 60000"
    "week_today \<noteq> startOfDay week_today"
    by (simp_all add: timeOfDay_def week_today_def date_defs)
  from a b c show ?thesis by simp
qed

text \<open>
  C5, amended. Every event created has a start equal to its end, both the selected date
  exactly as it is, with no adjustment to midnight, so start and end are always the same
  calendar day; at most one event is created per submission. A column click, a pick in
  the week grid and the add button each make their date the selected one, and typing a
  title or a time keeps it; so an event submitted with a title after any of the three
  starts and ends at the very date that was clicked, picked, or, for the add button, at
  today.
\<close>

theorem handleAddEvent_start_end:
  "(\<forall>c \<in> set (snd (handleAddEvent s)).
       \<exists>d e. docField ''start'' c = Some (TimestampValue d)
            \<and> docField ''end'' c = Some (TimestampValue e)
            \<and> d = e \<and> isSameDay d e \<and> selectedDate s = Some d)
   \<and> length (snd (handleAddEvent s)) \<le> 1
   \<and> selectedDate (handleColumnClick day s) = Some day
   \<and> selectedDate (setSelectedDate (Some day) s) = Some day
   \<and> selectedDate (handleAddEventClick today s) = Some today
   \<and> selectedDate (setNewEventTitle v s) = selectedDate s
   \<and> selectedDate (setNewEventTime v s) = selectedDate s
   \<and> (v \<noteq> [] \<longrightarrow>
        map (docField ''start'') (snd (handleAddEvent (setNewEventTitle v (handleColumnClick day s))))
          = [Some (TimestampValue day)]
        \<and> map (docField ''end'') (snd (handleAddEvent (setNewEventTitle v (handleColumnClick day s))))
          = [Some (TimestampValue day)])
   \<and> (v \<noteq> [] \<longrightarrow>
        map (docField ''start'')
          (snd (handleAddEvent (setNewEventTitle v (setSelectedDate (Some day) s))))
          = [Some (TimestampValue day)]
        \<and> map (docField ''end'')
          (snd (handleAddEvent (setNewEventTitle v (setSelectedDate (Some day) s))))
          = [Some (TimestampValue day)])
   \<and> (v \<noteq> [] \<longrightarrow>
        map (docField ''start'')
          (snd (handleAddEvent (setNewEventTitle v (handleAddEventClick today s))))
          = [Some (TimestampValue today)]
        \<and> map (docField ''end'')
          (snd (handleAddEvent (setNewEventTitle v (handleAddEventClick today s))))
          = [Some (TimestampValue today)])"
proof -
  have a: "\<forall>c \<in> set (snd (handleAddEvent s)).
       \<exists>d e. docField ''start'' c = Some (TimestampValue d)
            \<and> docField ''end'' c = Some (TimestampValue e)
            \<and> d = e \<and> isSameDay d e \<and> selectedDate s = Some d"
    by (simp add: handleAddEvent_def isSameDay_refl split: option.splits)
  have b: "length (snd (handleAddEvent s)) \<le> 1"
    by (simp add: handleAddEvent_def split: option.splits)
  have c: "selectedDate (handleColumnClick day s) = Some day"
    "selectedDate (setSelectedDate (Some day) s) = Some day"
    "selectedDate (handleAddEventClick today s) = Some today"
    "selectedDate (setNewEventTitle v s) = selectedDate s"
    "selectedDate (setNewEventTime v s) = selectedDate s"
    by (simp_all add: handler_defs)
  have column: "map (docField ''start'')
          (snd (handleAddEvent (setNewEventTitle v (handleColumnClick day s))))
          = [Some (TimestampValue day)]
        \<and> map (docField ''end'')
          (snd (handleAddEvent (setNewEventTitle v (handleColumnClick day s))))
          = [Some (TimestampValue day)]" if "v \<noteq> []"
    using that by (simp add: handleAddEvent_def handler_defs)
  have grid: "map (docField ''start'')
          (snd (handleAddEvent (setNewEventTitle v (setSelectedDate (Some day) s))))
          = [Some (TimestampValue day)]
        \<and> map (docField ''end'')
          (snd (handleAddEvent (setNewEventTitle v (setSelectedDate (Some day) s))))
          = [Some (TimestampValue day)]" if "v \<noteq> []"
    using that by (simp add: handleAddEvent_def handler_defs)
  have button: "map (docField ''start'')
          (snd (handleAddEvent (setNewEventTitle v (handleAddEventClick today s))))
          = [Some (TimestampValue today)]
        \<and> map (docField ''end'')
          (snd (handleAddEvent (setNewEventTitle v (handleAddEventClick today s))))
          = [Some (TimestampValue today)]" if "v \<noteq> []"
    using that by (simp add: handleAddEvent_def handler_defs)
  from a b c column grid button show ?thesis by blast
qed

theorem handleAddEvent_start_end_witness:
  "''Gym'' \<noteq> []
   \<and> map (docField ''start'')
        (snd (handleAddEvent (setNewEventTitle ''Gym'' (handleColumnClick week_today initialBoard))))
       = [Some (TimestampValue week_today)]
   \<and> map (docField ''end'')
        (snd (handleAddEvent (setNewEventTitle ''Gym'' (handleColumnClick week_today initialBoard))))
       = [Some (TimestampValue week_today)]
   \<and> map (docField ''start'')
        (snd (handleAddEvent
          (setNewEventTitle ''Gym'' (setSelectedDate (Some (mkDate 2024 6 9 0 0)) initialBoard))))
       = [Some (TimestampValue (mkDate 2024 6 9 0 0))]
   \<and> map (docField ''end'')
        (snd (handleAddEvent
          (setNewEventTitle ''Gym'' (setSelectedDate (Some (mkDate 2024 6 9 0 0)) initialBoard))))
       = [Some (TimestampValue (mkDate 2024 6 9 0 0))]
   \<and> selectedDate (setNewEventTitle ''Gym'' (handleColumnClick week_today initialBoard))
       = Some week_today"
proof -
  have ne: "''Gym'' \<noteq> []" by simp
  let ?s = "setNewEventTitle ''Gym'' (handleColumnClick week_today initialBoard)"
  note column = handleAddEvent_start_end
    [where s = initialBoard and v = "''Gym''" and day = week_today]
  note grid = handleAddEvent_start_end
    [where s = initialBoard and v = "''Gym''" and day = "mkDate 2024 6 9 0 0"]
  note submitted = handleAddEvent_start_end [where s = ?s]
  from column ne have st: "map (docField ''start'') (snd (handleAddEvent ?s))
                             = [Some (TimestampValue week_today)]"
    and en: "map (docField ''end'') (snd (handleAddEvent ?s))
                             = [Some (TimestampValue week_today)]"
    by blast+
  from grid ne have gst: "map (docField ''start'')
        (snd (handleAddEvent
          (setNewEventTitle ''Gym'' (setSelectedDate (Some (mkDate 2024 6 9 0 0)) initialBoard))))
       = [Some (TimestampValue (mkDate 2024 6 9 0 0))]"
    and gen: "map (docField ''end'')
        (snd (handleAddEvent
          (setNewEventTitle ''Gym'' (setSelectedDate (Some (mkDate 2024 6 9 0 0)) initialBoard))))
       = [Some (TimestampValue (mkDate 2024 6 9 0 0))]"
    by blast+
  from st obtain c where c: "snd (handleAddEvent ?s) = [c]"
    and cs: "docField ''start'' c = Some (TimestampValue week_today)"
    by (auto simp: map_eq_Cons_conv)
  from submitted have "\<forall>c \<in> set (snd (handleAddEvent ?s)).
       \<exists>d e. docField ''start'' c = Some (TimestampValue d)
            \<and> docField ''end'' c = Some (TimestampValue e)
            \<and> d = e \<and> isSameDay d e \<and> selectedDate ?s = Some d"
    by (rule conjunct1)
  with c have "\<exists>d e. docField ''start'' c = Some (TimestampValue d)
            \<and> docField ''end'' c = Some (TimestampValue e)
            \<and> d = e \<and> isSameDay d e \<and> selectedDate ?s = Some d"
    by simp
  with cs have sel: "selectedDate ?s = Some week_today"
    by auto
  from ne st en gst gen sel show ?thesis by blast
qed

text \<open>
  C9. Submitting the dialog issues a creation request exactly when a date is selected
  and the title is not the empty string. Without a selected date or with an empty title
  nothing is issued and the state is unchanged. Otherwise one document is added, with
  the title as typed, the time, start and end at the selected date and a server
  creation time, and the dialog closes. A title of three spaces, which trims to
  nothing, is accepted and stored as it is.
\<close>

theorem handleAddEvent_guard:
  "(snd (handleAddEvent s) \<noteq> [] \<longleftrightarrow> selectedDate s \<noteq> None \<and> newEventTitle s \<noteq> [])
   \<and> (selectedDate s = None \<or> newEventTitle s = [] \<longrightarrow> handleAddEvent s = (s, []))
   \<and> (selectedDate s = Some d \<and> newEventTitle s \<noteq> [] \<longrightarrow>
        handleAddEvent s =
          (closeModal s,
           [AddDoc ''events''
              [(''title'', StringValue (newEventTitle s)),
               (''time'', StringValue (newEventTime s)),
               (''start'', TimestampValue d),
               (''end'', TimestampValue d),
               (''createdAt'', ServerTimestamp)]]))
   \<and> trim (ofAscii ''   '') = []
   \<and> snd (handleAddEvent (setNewEventTitle ''   '' (handleColumnClick d s)))
       = [AddDoc ''events''
            [(''title'', StringValue ''   ''),
             (''time'', StringValue ''09:00''),
             (''start'', TimestampValue d),
             (''end'', TimestampValue d),
             (''createdAt'', ServerTimestamp)]]"
proof -
  have a: "snd (handleAddEvent s) \<noteq> [] \<longleftrightarrow> selectedDate s \<noteq> None \<and> newEventTitle s \<noteq> []"
    by (simp add: handleAddEvent_def split: option.splits)
  have b: "selectedDate s = None \<or> newEventTitle s = [] \<longrightarrow> handleAddEvent s = (s, [])"
    by (simp add: handleAddEvent_def split: option.splits)
  have c: "selectedDate s = Some d \<and> newEventTitle s \<noteq> [] \<longrightarrow>
        handleAddEvent s =
          (closeModal s,
           [AddDoc ''events''
              [(''title'', StringValue (newEventTitle s)),
               (''time'', StringValue (newEventTime s)),
               (''start'', TimestampValue d),
               (''end'', TimestampValue d),
               (''createdAt'', ServerTimestamp)]])"
    by (simp add: handleAddEvent_def)
  have t: "trim (ofAscii ''   '') = []"
    by (simp add: trim_def ofAscii_def isWhiteSpace_def)
  have e: "snd (handleAddEvent (setNewEventTitle ''   '' (handleColumnClick d s)))
       = [AddDoc ''events''
            [(''title'', StringValue ''   ''),
             (''time'', StringValue ''09:00''),
             (''start'', TimestampValue d),
             (''end'', TimestampValue d),
             (''createdAt'', ServerTimestamp)]]"
    by (simp add: handleAddEvent_def handler_defs)
  from a b c t e show ?thesis by blast
qed

theorem handleAddEvent_guard_witness:
  "selectedDate (setNewEventTitle ''Gym'' (handleColumnClick week_today initialBoard))
     = Some week_today
   \<and> newEventTitle (setNewEventTitle ''Gym'' (handleColumnClick week_today initialBoard)) \<noteq> []
   \<and> handleAddEvent (setNewEventTitle ''Gym'' (handleColumnClick week_today initialBoard))
       = (initialBoard,
          [AddDoc ''events''
             [(''title'', StringValue ''Gym''),
              (''time'', StringValue ''09:00''),
              (''start'', TimestampValue week_today),
              (''end'', TimestampValue week_today),
              (''createdAt'', ServerTimestamp)]])
   \<and> newEventTitle (handleColumnClick week_today initialBoard) = []
   \<and> handleAddEvent (handleColumnClick week_today initialBoard)
       = (handleColumnClick week_today initialBoard, [])
   \<and> selectedDate (setNewEventTitle ''Gym'' initialBoard) = None
   \<and> handleAddEvent (setNewEventTitle ''Gym'' initialBoard)
       = (setNewEventTitle ''Gym'' initialBoard, [])"
proof -
  have a: "selectedDate (setNewEventTitle ''Gym'' (handleColumnClick week_today initialBoard))
             = Some week_today"
    "newEventTitle (setNewEventTitle ''Gym'' (handleColumnClick week_today initialBoard)) \<noteq> []"
    "newEventTime (setNewEventTitle ''Gym'' (handleColumnClick week_today initialBoard))
       = ''09:00''"
    "newEventTitle (setNewEventTitle ''Gym'' (handleColumnClick week_today initialBoard))
       = ''Gym''"
    "closeModal (setNewEventTitle ''Gym'' (handleColumnClick week_today initialBoard))
       = initialBoard"
    by (simp_all add: handler_defs initialBoard_def)
  have b: "newEventTitle (handleColumnClick week_today initialBoard) = []"
    by (simp add: handler_defs initialBoard_def)
  have c: "selectedDate (setNewEventTitle ''Gym'' initialBoard) = None"
    by (simp add: handler_defs initialBoard_def)
  from handleAddEvent_guard
         [of "setNewEventTitle ''Gym'' (handleColumnClick week_today initialBoard)" week_today]
       handleAddEvent_guard [of "handleColumnClick week_today initialBoard"]
       handleAddEvent_guard [of "setNewEventTitle ''Gym'' initialBoard"]
       a b c
  show ?thesis by simp
qed

section \<open>The visible window\<close>

text \<open>
  C6. For a window start that is not negative, the visible days are the seven days of
  the active days from that index on, fewer when the list ends earlier: never more than
  seven, and none when the index is at or beyond the end. Replacing the events leaves
  the window start as it was. So after seven events in the week before today, one step to
  the right and a snapshot without events, the only active day is today, the window
  starts at 1 and the visible window is empty.
\<close>

theorem visibleBoardDays_slice:
  "(0 \<le> windowStart \<longrightarrow>
      visibleBoardDays days windowStart = take 7 (drop (nat windowStart) days))
   \<and> length (visibleBoardDays days windowStart) \<le> 7
   \<and> (int (length days) \<le> windowStart \<longrightarrow> visibleBoardDays days windowStart = [])
   \<and> boardWindowStart (setEvents eventsArr s) = boardWindowStart s
   \<and> board_shrunk = setEvents [] (clickArrow ChevronRight week_today
                        (setEvents week_events initialBoard))
   \<and> activeDays week_today (events board_shrunk) = [week_today]
   \<and> boardWindowStart board_shrunk = 1
   \<and> visibleBoardDays (activeDays week_today (events board_shrunk))
        (boardWindowStart board_shrunk) = []"
proof -
  have a: "0 \<le> windowStart \<longrightarrow>
      visibleBoardDays days windowStart = take 7 (drop (nat windowStart) days)"
    by (simp add: visibleBoardDays_def slice_window)
  have b: "length (visibleBoardDays days windowStart) \<le> 7"
    unfolding visibleBoardDays_def by (rule slice_length_le)
  have c: "int (length days) \<le> windowStart \<longrightarrow> visibleBoardDays days windowStart = []"
    by (simp add: visibleBoardDays_def slice_window)
  have d: "boardWindowStart (setEvents eventsArr s) = boardWindowStart s"
    by (simp add: setEvents_def)
  have e: "board_shrunk = setEvents [] (clickArrow ChevronRight week_today
                        (setEvents week_events initialBoard))"
    by (simp add: board_shrunk_def board_moved_def board_full_def)
  have f: "boardWindowStart board_shrunk = 1"
    by (simp add: board_shrunk_eq)
  have g: "visibleBoardDays (activeDays week_today (events board_shrunk))
        (boardWindowStart board_shrunk) = []"
    by (simp add: board_shrunk_days f visibleBoardDays_def slice_def)
  from a b c d e f g board_shrunk_days show ?thesis by blast
qed

theorem visibleBoardDays_slice_witness:
  "(0::int) \<le> 1
   \<and> visibleBoardDays [10, 20, 30, 40, 50, 60, 70, 80, 90] 1 = [20, 30, 40, 50, 60, 70, 80]
   \<and> int (length [10, 20, 30 :: int]) \<le> 3
   \<and> visibleBoardDays [10, 20, 30] 3 = []"
proof -
  have h1: "(0::int) \<le> 1" by simp
  have h2: "int (length [10, 20, 30 :: int]) \<le> 3" by simp
  from visibleBoardDays_slice [of 1 "[10, 20, 30, 40, 50, 60, 70, 80, 90]"]
    visibleBoardDays_slice [of 3 "[10, 20, 30]"] h1 h2
  show ?thesis by simp
qed

section \<open>The week of the day picker\<close>

text \<open>
  C7. For every today and every week offset the picker shows seven dates, each one day
  after the one before, in ascending order, the first being the start date of the week.
  At offset 0 that start date is a Sunday at local midnight, not after today and less
  than seven days before it, and one of the seven dates is on the calendar day of today.
  The week at an offset plus 1 begins exactly seven days after the week at that offset;
  so the week at offset 1 begins seven days after the week at offset 0.
\<close>

theorem modalWeekDays_week:
  "modalWeekDays today weekOffset =
     [addDays (modalStartDate today weekOffset) 0,
      addDays (modalStartDate today weekOffset) 1,
      addDays (modalStartDate today weekOffset) 2,
      addDays (modalStartDate today weekOffset) 3,
      addDays (modalStartDate today weekOffset) 4,
      addDays (modalStartDate today weekOffset) 5,
      addDays (modalStartDate today weekOffset) 6]
   \<and> map dayNumber (modalWeekDays today weekOffset) =
       map (\<lambda>i. dayNumber (modalStartDate today weekOffset) + int i) [0..<7]
   \<and> sorted_wrt (<) (modalWeekDays today weekOffset)
   \<and> hd (modalWeekDays today weekOffset) = modalStartDate today weekOffset
   \<and> getDay (modalStartDate today 0) = 0
   \<and> timeOfDay (modalStartDate today 0) = 0
   \<and> dayNumber (modalStartDate today 0) \<le> dayNumber today
   \<and> dayNumber today < dayNumber (modalStartDate today 0) + 7
   \<and> (\<exists>d \<in> set (modalWeekDays today 0). isSameDay d today)
   \<and> hd (modalWeekDays today (weekOffset + 1))
       = addDays (hd (modalWeekDays today weekOffset)) 7
   \<and> hd (modalWeekDays today 1) = addDays (hd (modalWeekDays today 0)) 7"
proof -
  have hd_eq: "hd (modalWeekDays today k) = modalStartDate today k" for k
    by (simp add: modalWeekDays_explicit addDays_def)
  have days: "map dayNumber (modalWeekDays today weekOffset) =
       map (\<lambda>i. dayNumber (modalStartDate today weekOffset) + int i) [0..<7]"
    by (simp add: modalWeekDays_def dayNumber_addDays)
  have asc: "sorted_wrt (<) (modalWeekDays today weekOffset)"
    by (simp add: modalWeekDays_explicit addDays_def msPerDay_def)
  have sun: "getDay (modalStartDate today 0) = 0"
    by (simp add: modalStartDate_def addDays_def getDay_startOfWeek)
  have mid: "timeOfDay (modalStartDate today 0) = 0"
    by (simp add: modalStartDate_def addDays_def startOfWeek_def Let_def timeOfDay_startOfDay)
  have lo: "dayNumber (modalStartDate today 0) \<le> dayNumber today"
    and hi: "dayNumber today < dayNumber (modalStartDate today 0) + 7"
    using getDay_range [of today]
    by (simp_all add: modalStartDate_def addDays_def dayNumber_startOfWeek)
  have step: "modalStartDate today (k + 1) = addDays (modalStartDate today k) 7" for k
    by (simp add: modalStartDate_def addDays_def algebra_simps)
  have nxt: "hd (modalWeekDays today (weekOffset + 1))
       = addDays (hd (modalWeekDays today weekOffset)) 7"
    by (simp only: hd_eq step)
  have one: "hd (modalWeekDays today 1) = addDays (hd (modalWeekDays today 0)) 7"
    using step [of 0] by (simp only: hd_eq) simp
  from modalWeekDays_explicit days asc hd_eq sun mid lo hi today_in_modal_week nxt one
  show ?thesis by blast
qed

theorem modalWeekDays_week_witness:
  "modalWeekDays week_today 0 =
     [mkDate 2024 6 9 0 0, mkDate 2024 6 10 0 0, mkDate 2024 6 11 0 0, mkDate 2024 6 12 0 0,
      mkDate 2024 6 13 0 0, mkDate 2024 6 14 0 0, mkDate 2024 6 15 0 0]
   \<and> getDay (mkDate 2024 6 9 0 0) = 0
   \<and> mkDate 2024 6 12 0 0 \<in> set (modalWeekDays week_today 0)
   \<and> isSameDay (mkDate 2024 6 12 0 0) week_today
   \<and> hd (modalWeekDays week_today 1) = mkDate 2024 6 16 0 0"
proof -
  have s0: "modalStartDate week_today 0 = mkDate 2024 6 9 0 0"
    by (simp add: modalStartDate_def startOfWeek_def getDay_def week_today_def date_defs)
  have s1: "addDays (mkDate 2024 6 9 0 0) 7 = mkDate 2024 6 16 0 0"
    by (simp add: date_defs)
  have e: "[addDays (mkDate 2024 6 9 0 0) 0, addDays (mkDate 2024 6 9 0 0) 1,
            addDays (mkDate 2024 6 9 0 0) 2, addDays (mkDate 2024 6 9 0 0) 3,
            addDays (mkDate 2024 6 9 0 0) 4, addDays (mkDate 2024 6 9 0 0) 5,
            addDays (mkDate 2024 6 9 0 0) 6]
         = [mkDate 2024 6 9 0 0, mkDate 2024 6 10 0 0, mkDate 2024 6 11 0 0,
            mkDate 2024 6 12 0 0, mkDate 2024 6 13 0 0, mkDate 2024 6 14 0 0,
            mkDate 2024 6 15 0 0]"
    by (simp add: date_defs)
  have same: "isSameDay (mkDate 2024 6 12 0 0) week_today"
    by (simp add: week_today_def date_defs)
  note inst = modalWeekDays_week [of week_today 0]
  from inst have l: "modalWeekDays week_today 0 =
     [mkDate 2024 6 9 0 0, mkDate 2024 6 10 0 0, mkDate 2024 6 11 0 0, mkDate 2024 6 12 0 0,
      mkDate 2024 6 13 0 0, mkDate 2024 6 14 0 0, mkDate 2024 6 15 0 0]"
    by (simp only: s0 e)
  from inst have g: "getDay (mkDate 2024 6 9 0 0) = 0"
    by (simp only: s0)
  from inst have h: "hd (modalWeekDays week_today 1) = addDays (hd (modalWeekDays week_today 0)) 7"
    by blast
  have h': "hd (modalWeekDays week_today 1) = mkDate 2024 6 16 0 0"
    by (simp only: h l list.sel s1)
  have mem: "mkDate 2024 6 12 0 0 \<in> set (modalWeekDays week_today 0)"
    by (simp only: l) simp
  from l g mem same h' show ?thesis by blast
qed

section \<open>Adding a task\<close>

text \<open>
  C8. Submitting the task form with the empty input or with three spaces issues no
  store call and leaves the state unchanged, as does any input of white space only;
  indeed no call is issued exactly when every code unit of the input is white space.
  For every other input exactly one creation call is issued, with the input as its
  text, untrimmed, the completion flag false and the instant of the submission, and the
  input is cleared; so it is for \<open>Buy milk\<close>.
\<close>

theorem addTodo_blank_or_created:
  "addTodo now (s\<lparr>inputValue := []\<rparr>) = (s\<lparr>inputValue := []\<rparr>, [])
   \<and> addTodo now (s\<lparr>inputValue := ofAscii ''   ''\<rparr>) = (s\<lparr>inputValue := ofAscii ''   ''\<rparr>, [])
   \<and> ((\<forall>c \<in> set (inputValue s). isWhiteSpace c) \<longrightarrow> addTodo now s = (s, []))
   \<and> (snd (addTodo now s) = [] \<longleftrightarrow> (\<forall>c \<in> set (inputValue s). isWhiteSpace c))
   \<and> ((\<exists>c \<in> set (inputValue s). \<not> isWhiteSpace c) \<longrightarrow>
        addTodo now s =
          (s\<lparr>inputValue := []\<rparr>,
           [AddDoc ''todos''
              [(''text'', StringValue (inputValue s)),
               (''completed'', BooleanValue False),
               (''createdAt'', TimestampValue now)]]))
   \<and> addTodo now (s\<lparr>inputValue := ofAscii ''Buy milk''\<rparr>)
       = (s\<lparr>inputValue := []\<rparr>,
          [AddDoc ''todos''
             [(''text'', StringValue (ofAscii ''Buy milk'')),
              (''completed'', BooleanValue False),
              (''createdAt'', TimestampValue now)]])"
proof -
  have a: "addTodo now (s\<lparr>inputValue := []\<rparr>) = (s\<lparr>inputValue := []\<rparr>, [])"
    by (simp add: addTodo_def trim_def)
  have b: "addTodo now (s\<lparr>inputValue := ofAscii ''   ''\<rparr>)
             = (s\<lparr>inputValue := ofAscii ''   ''\<rparr>, [])"
    by (simp add: addTodo_def trim_def ofAscii_def isWhiteSpace_def)
  have c: "(\<forall>c \<in> set (inputValue s). isWhiteSpace c) \<longrightarrow> addTodo now s = (s, [])"
    by (simp add: addTodo_def trim_empty_iff)
  have d: "snd (addTodo now s) = [] \<longleftrightarrow> (\<forall>c \<in> set (inputValue s). isWhiteSpace c)"
    by (simp add: addTodo_def trim_empty_iff)
  have e: "addTodo now s =
          (s\<lparr>inputValue := []\<rparr>,
           [AddDoc ''todos''
              [(''text'', StringValue (inputValue s)),
               (''completed'', BooleanValue False),
               (''createdAt'', TimestampValue now)]])"
    if "\<exists>c \<in> set (inputValue s). \<not> isWhiteSpace c"
  proof -
    from that have "trim (inputValue s) \<noteq> []"
      by (simp add: trim_empty_iff)
    then show ?thesis
      by (simp add: addTodo_def setInputValue_def)
  qed
  have f: "addTodo now (s\<lparr>inputValue := ofAscii ''Buy milk''\<rparr>)
       = (s\<lparr>inputValue := []\<rparr>,
          [AddDoc ''todos''
             [(''text'', StringValue (ofAscii ''Buy milk'')),
              (''completed'', BooleanValue False),
              (''createdAt'', TimestampValue now)]])"
    by (simp add: addTodo_def trim_def ofAscii_def isWhiteSpace_def setInputValue_def)
  from a b c d e f show ?thesis by blast
qed

theorem addTodo_blank_or_created_witness:
  "list_all isWhiteSpace (inputValue (setInputValue [0x0020, 0x0009, 0x00A0, 0x3000] emptyList))
   \<and> addTodo week_today (setInputValue [0x0020, 0x0009, 0x00A0, 0x3000] emptyList)
       = (setInputValue [0x0020, 0x0009, 0x00A0, 0x3000] emptyList, [])
   \<and> of_char CHR ''W'' \<in> set (inputValue (setInputValue (ofAscii ''Walk dog'') emptyList))
   \<and> \<not> isWhiteSpace (of_char CHR ''W'')
   \<and> addTodo week_today (setInputValue (ofAscii ''Walk dog'') emptyList)
       = (emptyList,
          [AddDoc ''todos''
             [(''text'', StringValue (ofAscii ''Walk dog'')),
              (''completed'', BooleanValue False),
              (''createdAt'', TimestampValue week_today)]])"
proof -
  let ?blank = "setInputValue [0x0020, 0x0009, 0x00A0, 0x3000] emptyList"
  let ?walk = "setInputValue (ofAscii ''Walk dog'') emptyList"
  have h: "\<forall>c \<in> set (inputValue ?blank). isWhiteSpace c"
    by (simp add: setInputValue_def emptyList_def isWhiteSpace_def)
  have m: "of_char CHR ''W'' \<in> set (inputValue ?walk)"
    by (simp add: setInputValue_def emptyList_def ofAscii_def)
  have w: "\<not> isWhiteSpace (of_char CHR ''W'')"
    by (simp add: isWhiteSpace_def)
  have v: "inputValue ?walk = ofAscii ''Walk dog''" "?walk\<lparr>inputValue := []\<rparr> = emptyList"
    by (simp_all add: setInputValue_def emptyList_def)
  from m w have ex: "\<exists>c \<in> set (inputValue ?walk). \<not> isWhiteSpace c"
    by blast
  from addTodo_blank_or_created [of week_today ?blank] h
  have blank: "addTodo week_today ?blank = (?blank, [])"
    by blast
  from addTodo_blank_or_created [of week_today ?walk] ex
  have "addTodo week_today ?walk =
          (?walk\<lparr>inputValue := []\<rparr>,
           [AddDoc ''todos''
              [(''text'', StringValue (inputValue ?walk)),
               (''completed'', BooleanValue False),
               (''createdAt'', TimestampValue week_today)]])"
    by blast
  then have walk: "addTodo week_today ?walk
       = (emptyList,
          [AddDoc ''todos''
             [(''text'', StringValue (ofAscii ''Walk dog'')),
              (''completed'', BooleanValue False),
              (''createdAt'', TimestampValue week_today)]])"
    by (simp only: v)
  from h have "list_all isWhiteSpace (inputValue ?blank)"
    by (simp add: list_all_iff)
  with blank m w walk show ?thesis by blast
qed

section \<open>Displaying a time\<close>

text \<open>
  C10. The display of the empty time is the empty string. The display of a well-formed
  time is the hour, then a colon and the two minute digits as they are, a space and the
  period: hour 0 shows as 12 and hours 1 to 11 as they are, with AM; hour 12 shows as 12
  and hours 13 to 23 as the hour minus 12, with PM. So 00:05 shows as 12:05 AM, 12:30
  as 12:30 PM and 15:07 as 3:07 PM.
\<close>

theorem formatTime12Hour_renders:
  "formatTime12Hour [] = Inr []
   \<and> (isTime24 t \<longrightarrow>
        formatTime12Hour t =
          Inr (let h = 10 * digitValue (t ! 0) + digitValue (t ! 1)
               in toString (if h = 0 then 12 else if h \<le> 11 then h
                            else if h = 12 then 12 else h - 12)
                  @ '':'' @ [t ! 3, t ! 4] @ '' ''
                  @ (if h \<le> 11 then ''AM'' else ''PM'')))
   \<and> formatTime12Hour ''00:05'' = Inr ''12:05 AM''
   \<and> formatTime12Hour ''12:30'' = Inr ''12:30 PM''
   \<and> formatTime12Hour ''15:07'' = Inr ''3:07 PM''"
proof -
  have empty: "formatTime12Hour [] = Inr []"
    by (simp add: formatTime12Hour_def)
  have general: "formatTime12Hour t =
          Inr (let h = 10 * digitValue (t ! 0) + digitValue (t ! 1)
               in toString (if h = 0 then 12 else if h \<le> 11 then h
                            else if h = 12 then 12 else h - 12)
                  @ '':'' @ [t ! 3, t ! 4] @ '' ''
                  @ (if h \<le> 11 then ''AM'' else ''PM''))" if "isTime24 t"
  proof -
    from that obtain a b c d where t: "t = [a, b, CHR '':'', c, d]"
      and dig: "isDigit a" "isDigit b" "isDigit c" "isDigit d"
      and h: "10 * digitValue a + digitValue b < 24"
      by (rule isTime24_shape)
    let ?h = "10 * digitValue a + digitValue b"
    let ?m = "10 * digitValue c + digitValue d"
    have parts: "map Number (split t CHR '':'') = [Some ?h, Some ?m]"
      using dig by (simp only: t split_time list.map Number_two_digits)
    have "formatTime12Hour t =
            Inr (toString (if ?h mod 12 = 0 then 12 else ?h mod 12) @ '':''
                 @ padStart (toString ?m) 2 CHR ''0'' @ '' ''
                 @ (if ?h \<ge> 12 then ''PM'' else ''AM''))"
      unfolding formatTime12Hour_def parts by (simp add: t Let_def del: toString.simps)
    also have "(if ?h mod 12 = 0 then 12 else ?h mod 12)
                 = (if ?h = 0 then 12 else if ?h \<le> 11 then ?h
                    else if ?h = 12 then 12 else ?h - 12)"
      using h by (rule hours12_cases)
    also have "padStart (toString ?m) 2 CHR ''0'' = [c, d]"
      using dig by (simp only: padStart_two_digits)
    also have "(if ?h \<ge> 12 then ''PM'' else ''AM'') = (if ?h \<le> 11 then ''AM'' else ''PM'')"
      by auto
    finally show ?thesis
      by (simp add: t Let_def del: toString.simps)
  qed
  have e1: "formatTime12Hour ''00:05'' = Inr ''12:05 AM''"
    by (simp add: formatTime12Hour_def Number_def isDigit_def digitValue_def digitChar_values
        padStart_def)
  have e2: "formatTime12Hour ''12:30'' = Inr ''12:30 PM''"
    by (simp add: formatTime12Hour_def Number_def isDigit_def digitValue_def digitChar_values
        padStart_def)
  have e3: "formatTime12Hour ''15:07'' = Inr ''3:07 PM''"
    by (simp add: formatTime12Hour_def Number_def isDigit_def digitValue_def digitChar_values
        padStart_def)
  from empty general e1 e2 e3 show ?thesis by blast
qed

theorem formatTime12Hour_renders_witness:
  "isTime24 ''09:05'' \<and> formatTime12Hour ''09:05'' = Inr ''9:05 AM''
   \<and> isTime24 ''23:59'' \<and> formatTime12Hour ''23:59'' = Inr ''11:59 PM''"
proof -
  have a: "isTime24 ''09:05''" "isTime24 ''23:59''"
    by (simp_all add: isTime24_def isDigit_def digitValue_def)
  from formatTime12Hour_renders [of "''09:05''"] formatTime12Hour_renders [of "''23:59''"] a
  show ?thesis
    by (simp add: digitValue_def digitChar_values)
qed

end
